theory Spec2Isabelle
  imports Complex_Main
begin

section \<open>Numbers, clocks and errors\<close>

text \<open>
  The Python sources compute with \<open>float\<close>. The model computes with exact rationals:
  every formula is the one the source writes, evaluated without binary rounding. The
  only rounding that is modelled is the explicit \<open>round(x, n)\<close> of the source, which
  rounds to \<open>n\<close> decimals with ties going to the even neighbour. Infinite values and
  not-a-number are outside the model; a division by zero raises, as it does for Python
  floats.
\<close>

definition round_half_even :: "rat \<Rightarrow> int" where
  "round_half_even x =
     (let f = \<lfloor>x\<rfloor>; d = x - of_int f
      in if d < 1 / 2 then f
         else if 1 / 2 < d then f + 1
         else if even f then f else f + 1)"

definition py_round :: "rat \<Rightarrow> nat \<Rightarrow> rat" where
  "py_round x n = of_int (round_half_even (x * 10 ^ n)) / 10 ^ n"

text \<open>
  A reading of \<open>datetime.now()\<close> is a parameter of every operation that takes one. A
  \<open>datetime\<close> is its calendar day (a day number) and its rendering by
  \<open>strftime('%Y%m%d%H%M%S')\<close>.
\<close>

record datetime =
  day :: nat
  stamp :: string

datatype error =
    ValueError string
  | ZeroDivisionError
  | TypeError
  | IndexError
  | KeyError string
  | AttributeError string

section \<open>risk\_manager.py\<close>

text \<open>
  \<open>RiskManager.__init__\<close> copies four values of \<open>Config\<close> (read from the environment,
  so they are fields here, not constants) and starts with \<open>daily_pnl = 0\<close>.
\<close>

record RiskManager =
  max_daily_loss :: rat
  max_position_size :: rat
  stop_loss_percent :: rat
  take_profit_percent :: rat
  daily_pnl :: rat
  daily_reset_time :: nat

definition reset_daily_stats :: "RiskManager \<Rightarrow> datetime \<Rightarrow> RiskManager" where
  "reset_daily_stats self now =
     (if daily_reset_time self < day now
      then self\<lparr>daily_pnl := 0, daily_reset_time := day now\<rparr>
      else self)"


section \<open>trade\_setup.py\<close>

datatype PositionType = LONG | SHORT

datatype TradeStatus = PENDING | ACTIVE | SL_HIT | TARGET_HIT | CLOSED

text \<open>
  A trade is the dictionary \<open>create_trade\<close> builds; every key is always present, so
  it is a record. \<open>None\<close> values are options.
\<close>

record trade =
  trade_id :: string
  symbol :: string
  position_type :: PositionType
  entry_price :: rat
  sl_price :: rat
  target_price :: rat
  quantity :: rat
  risk_percent :: rat
  risk_amount :: rat
  reward_amount :: rat
  risk_reward_ratio :: rat
  sl_percent :: rat
  target_percent :: rat
  strategy :: string
  indicators :: "(string \<times> rat) list"
  status :: TradeStatus
  created_at :: datetime
  entry_time :: "datetime option"
  exit_time :: "datetime option"
  exit_price :: "rat option"
  pnl :: rat
  pnl_percent :: rat

text \<open>
  The ledger. \<open>self.trades\<close> only grows, and \<open>self.active_positions\<close> holds
  references to dictionaries that are also in \<open>self.trades\<close>: a reference is the
  position of the trade in \<open>trades\<close>, so that a mutation of a trade is seen through
  both lists, as in the source.
\<close>

record TradeSetup =
  account_balance :: rat
  trades :: "trade list"
  active_positions :: "nat list"

definition TradeSetup_init :: TradeSetup where
  "TradeSetup_init = \<lparr>account_balance = 0, trades = [], active_positions = []\<rparr>"

definition set_account_balance :: "TradeSetup \<Rightarrow> rat \<Rightarrow> TradeSetup" where
  "set_account_balance self balance = self\<lparr>account_balance := balance\<rparr>"

definition TradeSetup_calculate_position_size :: "TradeSetup \<Rightarrow> rat \<Rightarrow> rat \<Rightarrow> rat \<Rightarrow> rat" where
  "TradeSetup_calculate_position_size self entry sl rp =
     (if entry \<le> sl then 0
      else
        let risk_per_unit = \<bar>entry - sl\<bar>;
            risk = account_balance self * (rp / 100);
            position_size = risk / risk_per_unit
        in py_round position_size 8)"

text \<open>Decimal rendering of \<open>len(self.trades)\<close> inside the trade id.\<close>

fun digits :: "nat \<Rightarrow> nat \<Rightarrow> string" where
  "digits 0 n = []"
| "digits (Suc fuel) n =
     (if n < 10 then [char_of (48 + n)]
      else digits fuel (n div 10) @ [char_of (48 + n mod 10)])"

definition str_of_nat :: "nat \<Rightarrow> string" where
  "str_of_nat n = digits (Suc n) n"

definition make_id :: "datetime \<Rightarrow> nat \<Rightarrow> string" where
  "make_id now n = ''TRADE_'' @ stamp now @ ''_'' @ str_of_nat n"

text \<open>
  \<open>create_trade\<close>. The result is the value returned or the exception raised, and the
  ledger after the call. The two clock readings of the source (for the id and for
  \<open>created_at\<close>) are one parameter. \<open>quantity = None\<close> asks for the automatic size.
\<close>

definition create_trade ::
  "TradeSetup \<Rightarrow> datetime \<Rightarrow> string \<Rightarrow> PositionType \<Rightarrow> rat \<Rightarrow> rat \<Rightarrow> rat \<Rightarrow> rat option \<Rightarrow> rat
     \<Rightarrow> string \<Rightarrow> (string \<times> rat) list option \<Rightarrow> (error + trade) \<times> TradeSetup" where
  "create_trade self now symb ptype entry sl target qty rp strat inds =
     (if ptype = LONG \<and> entry \<le> sl then
        (Inl (ValueError ''Stop loss must be below entry price for LONG position''), self)
      else if ptype = LONG \<and> target \<le> entry then
        (Inl (ValueError ''Target must be above entry price for LONG position''), self)
      else if ptype \<noteq> LONG \<and> sl \<le> entry then
        (Inl (ValueError ''Stop loss must be above entry price for SHORT position''), self)
      else if ptype \<noteq> LONG \<and> entry \<le> target then
        (Inl (ValueError ''Target must be below entry price for SHORT position''), self)
      else
        let q = (case qty of None \<Rightarrow> TradeSetup_calculate_position_size self entry sl rp
                 | Some q' \<Rightarrow> q');
            risk = \<bar>entry - sl\<bar> * q;
            reward = \<bar>target - entry\<bar> * q;
            rr = (if 0 < risk then reward / risk else 0)
        in if entry = 0 then (Inl ZeroDivisionError, self)
           else
             let slp = \<bar>(sl - entry) / entry\<bar> * 100;
                 tp = \<bar>(target - entry) / entry\<bar> * 100;
                 t = \<lparr>trade_id = make_id now (length (trades self)),
                      symbol = symb,
                      position_type = ptype,
                      entry_price = py_round entry 8,
                      sl_price = py_round sl 8,
                      target_price = py_round target 8,
                      quantity = py_round q 8,
                      risk_percent = rp,
                      risk_amount = py_round risk 2,
                      reward_amount = py_round reward 2,
                      risk_reward_ratio = py_round rr 2,
                      sl_percent = py_round slp 2,
                      target_percent = py_round tp 2,
                      strategy = strat,
                      indicators = (case inds of None \<Rightarrow> [] | Some i \<Rightarrow> i),
                      status = PENDING,
                      created_at = now,
                      entry_time = None,
                      exit_time = None,
                      exit_price = None,
                      pnl = 0,
                      pnl_percent = 0\<rparr>
             in (Inr t, self\<lparr>trades := trades self @ [t]\<rparr>))"

text \<open>
  \<open>get_trade\<close> returns the first trade of the ledger with the id, as a reference (its
  position in \<open>trades\<close>).
\<close>

definition get_trade :: "TradeSetup \<Rightarrow> string \<Rightarrow> nat option" where
  "get_trade self tid =
     find (\<lambda>i. trade_id (trades self ! i) = tid) [0..<length (trades self)]"

text \<open>
  \<open>_calculate_pnl\<close> mutates the trade: the result is the exception, if one is raised,
  and the trade as the call leaves it. \<open>pnl\<close> is stored before \<open>pnl_percent\<close> is
  computed, so a division by zero leaves the new \<open>pnl\<close> in place.
\<close>

definition calculate_pnl :: "trade \<Rightarrow> rat option \<Rightarrow> (error + unit) \<times> trade" where
  "calculate_pnl t current_price =
     (case (case current_price of None \<Rightarrow> exit_price t | Some p \<Rightarrow> Some p) of
        None \<Rightarrow> (Inl TypeError, t)
      | Some cp \<Rightarrow>
          let e = entry_price t;
              q = quantity t;
              p = (if position_type t = LONG then (cp - e) * q else (e - cp) * q);
              t' = t\<lparr>pnl := py_round p 2\<rparr>
          in if e * q = 0 then (Inl ZeroDivisionError, t')
             else (Inr (), t'\<lparr>pnl_percent := py_round (p / (e * q) * 100) 2\<rparr>))"

text \<open>
  \<open>activate_trade\<close>. \<open>if actual_entry_price:\<close> is false for \<open>None\<close> and for \<open>0.0\<close>.
\<close>

definition activate_trade ::
  "TradeSetup \<Rightarrow> datetime \<Rightarrow> string \<Rightarrow> rat option \<Rightarrow> (error + trade) \<times> TradeSetup" where
  "activate_trade self now tid actual_entry_price =
     (case get_trade self tid of
        None \<Rightarrow> (Inl (ValueError (''Trade '' @ tid @ '' not found'')), self)
      | Some i \<Rightarrow>
          let t = trades self ! i in
          if status t \<noteq> PENDING then
            (Inl (ValueError (''Trade '' @ tid @ '' is not pending'')), self)
          else
            let t1 = t\<lparr>status := ACTIVE, entry_time := Some now\<rparr>;
                t2 = (case actual_entry_price of
                        None \<Rightarrow> t1
                      | Some a \<Rightarrow>
                          if a = 0 then t1
                          else
                            let t' = t1\<lparr>entry_price := py_round a 8\<rparr>;
                                risk = \<bar>entry_price t' - sl_price t'\<bar> * quantity t';
                                reward = \<bar>target_price t' - entry_price t'\<bar> * quantity t'
                            in t'\<lparr>risk_amount := py_round risk 2,
                                  reward_amount := py_round reward 2\<rparr>)
            in (Inr t2, self\<lparr>trades := (trades self)[i := t2],
                              active_positions := active_positions self @ [i]\<rparr>))"

text \<open>
  \<open>check_trade\<close> returns a dictionary with a status tag and, unless the tag is
  \<open>not_active\<close>, the trade.
\<close>

datatype check_result = Not_active | Sl_hit trade | Target_hit trade | Active trade

definition check_trade ::
  "TradeSetup \<Rightarrow> datetime \<Rightarrow> string \<Rightarrow> rat \<Rightarrow> (error + check_result) \<times> TradeSetup" where
  "check_trade self now tid current_price =
     (case get_trade self tid of
        None \<Rightarrow> (Inr Not_active, self)
      | Some i \<Rightarrow>
          let t = trades self ! i in
          if status t \<noteq> ACTIVE then (Inr Not_active, self)
          else
            let sl_hit = (if position_type t = LONG then current_price \<le> sl_price t
                          else sl_price t \<le> current_price);
                target_hit = (if position_type t = LONG then target_price t \<le> current_price
                              else current_price \<le> target_price t)
            in
              if sl_hit then
                (case calculate_pnl
                        (t\<lparr>status := SL_HIT, exit_time := Some now,
                           exit_price := Some (py_round current_price 8)\<rparr>) None of
                   (Inl e, t') \<Rightarrow> (Inl e, self\<lparr>trades := (trades self)[i := t']\<rparr>)
                 | (Inr u, t') \<Rightarrow>
                     (Inr (Sl_hit t'),
                      self\<lparr>trades := (trades self)[i := t'],
                           active_positions :=
                             filter (\<lambda>j. trade_id (trades self ! j) \<noteq> tid)
                               (active_positions self)\<rparr>))
              else if target_hit then
                (case calculate_pnl
                        (t\<lparr>status := TARGET_HIT, exit_time := Some now,
                           exit_price := Some (py_round current_price 8)\<rparr>) None of
                   (Inl e, t') \<Rightarrow> (Inl e, self\<lparr>trades := (trades self)[i := t']\<rparr>)
                 | (Inr u, t') \<Rightarrow>
                     (Inr (Target_hit t'),
                      self\<lparr>trades := (trades self)[i := t'],
                           active_positions :=
                             filter (\<lambda>j. trade_id (trades self ! j) \<noteq> tid)
                               (active_positions self)\<rparr>))
              else
                (case calculate_pnl t (Some current_price) of
                   (Inl e, t') \<Rightarrow> (Inl e, self\<lparr>trades := (trades self)[i := t']\<rparr>)
                 | (Inr u, t') \<Rightarrow>
                     (Inr (Active t'), self\<lparr>trades := (trades self)[i := t']\<rparr>)))"


definition get_active_trades :: "TradeSetup \<Rightarrow> trade list" where
  "get_active_trades self = filter (\<lambda>t. status t = ACTIVE) (trades self)"

definition get_long_positions :: "TradeSetup \<Rightarrow> trade list" where
  "get_long_positions self =
     filter (\<lambda>t. position_type t = LONG) (map (\<lambda>j. trades self ! j) (active_positions self))"

definition get_short_positions :: "TradeSetup \<Rightarrow> trade list" where
  "get_short_positions self =
     filter (\<lambda>t. position_type t = SHORT) (map (\<lambda>j. trades self ! j) (active_positions self))"

text \<open>The dictionary \<open>get_trade_summary\<close> returns; its keys carry the prefix \<open>summary_\<close>.\<close>

record trade_summary =
  summary_account_balance :: rat
  summary_total_trades :: nat
  summary_active_trades :: nat
  summary_closed_trades :: nat
  summary_long_positions :: nat
  summary_short_positions :: nat
  summary_total_pnl :: rat
  summary_winning_trades :: nat
  summary_losing_trades :: nat
  summary_win_rate :: rat

definition get_trade_summary :: "TradeSetup \<Rightarrow> trade_summary" where
  "get_trade_summary self =
     (let total = length (trades self);
          active = length (get_active_trades self);
          closed = length (filter (\<lambda>t. status t \<in> {SL_HIT, TARGET_HIT, CLOSED}) (trades self));
          tpnl = sum_list (map pnl (trades self));
          winning = length (filter (\<lambda>t. 0 < pnl t) (trades self));
          losing = length (filter (\<lambda>t. pnl t < 0) (trades self))
      in \<lparr>summary_account_balance = account_balance self,
          summary_total_trades = total,
          summary_active_trades = active,
          summary_closed_trades = closed,
          summary_long_positions = length (get_long_positions self),
          summary_short_positions = length (get_short_positions self),
          summary_total_pnl = py_round tpnl 2,
          summary_winning_trades = winning,
          summary_losing_trades = losing,
          summary_win_rate = py_round (if 0 < closed then of_nat winning / of_nat closed * 100 else 0) 2\<rparr>)"

section \<open>Concrete inputs\<close>



definition morning :: datetime where
  "morning = \<lparr>day = 0, stamp = ''20240101093000''\<rparr>"

text \<open>
  Two LONG trades of one unit, 100 / 95 / 110, both activated; the first is checked at
  its target, the second at 105, between entry and target.
\<close>

definition two_long_trades :: TradeSetup where
  "two_long_trades =
     (let s0 = set_account_balance TradeSetup_init 10000;
          s1 = snd (create_trade s0 morning ''BTCUSDT'' LONG 100 95 110 (Some 1) 1 ''Manual'' None);
          s2 = snd (create_trade s1 morning ''ETHUSDT'' LONG 100 95 110 (Some 1) 1 ''Manual'' None);
          s3 = snd (activate_trade s2 morning ''TRADE_20240101093000_0'' None);
          s4 = snd (activate_trade s3 morning ''TRADE_20240101093000_1'' None);
          s5 = snd (check_trade s4 morning ''TRADE_20240101093000_0'' 110)
      in snd (check_trade s5 morning ''TRADE_20240101093000_1'' 105))"

section \<open>The price ordering of a trade\<close>









section \<open>backtesting.py\<close>

text \<open>
  \<open>run_backtest\<close> works on the frame \<open>df\<close> that \<open>normalize_data\<close> returns: its rows
  in timestamp order, each with a timestamp and the five numeric columns, and the first
  entry of its \<open>symbol\<close> column when the frame has one. Keys of the dictionaries of this module
  carry a prefix: \<open>sig_\<close> for a signal, \<open>pos_\<close> for an open position, \<open>bt_\<close> for a
  recorded trade.
\<close>

type_synonym timestamp = nat

record bar =
  bar_timestamp :: timestamp
  bar_open :: rat
  bar_high :: rat
  bar_low :: rat
  bar_close :: rat
  bar_volume :: rat

record dataframe =
  df_rows :: "bar list"
  df_symbol :: "string option"

text \<open>A signal: \<open>None\<close> is a key the dictionary does not have.\<close>

record signal =
  sig_action :: "string option"
  sig_price :: "rat option"
  sig_stop_loss :: "rat option"
  sig_take_profit :: "rat option"
  sig_confidence :: "rat option"

record position =
  pos_entry_time :: timestamp
  pos_entry_price :: rat
  pos_quantity :: rat
  pos_side :: string
  pos_symbol :: string
  pos_stop_loss :: rat
  pos_take_profit :: rat
  pos_confidence :: rat

record bt_trade =
  bt_entry_time :: timestamp
  bt_exit_time :: timestamp
  bt_symbol :: string
  bt_side :: string
  bt_entry_price :: rat
  bt_exit_price :: rat
  bt_quantity :: rat
  bt_pnl :: rat
  bt_pnl_percent :: rat
  bt_exit_reason :: string
  bt_strategy :: string

text \<open>
  A strategy object: its name, the periods \<open>run_backtest\<close> probes with \<open>hasattr\<close>, and
  its two methods. The methods may read and change the state \<open>'st\<close> of the object and
  may raise.
\<close>

record 'st strategy =
  strategy_name :: string
  slow_period :: "int option"
  rsi_period :: "int option"
  period :: "int option"
  generate_signal :: "'st \<Rightarrow> bar list \<Rightarrow> (error + signal) \<times> 'st"
  should_exit :: "'st \<Rightarrow> position \<Rightarrow> rat \<Rightarrow> (error + bool) \<times> 'st"

text \<open>
  \<open>BacktestResult\<close>, with the metrics up to the win rate. The averages, the profit
  factor, the drawdown and the Sharpe ratio are computed after these from \<open>trades\<close> and
  \<open>equity_curve\<close>, change none of the fields below and do not raise; they are left out
  (the Sharpe ratio needs a square root).
\<close>

record BacktestResult =
  result_trades :: "bt_trade list"
  equity_curve :: "rat list"
  total_trades :: nat
  winning_trades :: nat
  losing_trades :: nat
  total_pnl :: rat
  win_rate :: rat

definition BacktestResult_init :: BacktestResult where
  "BacktestResult_init =
     \<lparr>result_trades = [], equity_curve = [], total_trades = 0, winning_trades = 0,
      losing_trades = 0, total_pnl = 0, win_rate = 0\<rparr>"

record Backtester =
  initial_capital :: rat
  commission :: rat

text \<open>\<open>d.get(key, default)\<close>, for a key that is \<open>None\<close> when absent.\<close>

definition get_or :: "'a option \<Rightarrow> 'a \<Rightarrow> 'a" where
  "get_or v d = (case v of None \<Rightarrow> d | Some x \<Rightarrow> x)"

text \<open>The local variables of \<open>run_backtest\<close> that its loop changes.\<close>

record 'st run_state =
  capital :: rat
  curve :: "rat list"
  positions :: "position list"
  trades_list :: "bt_trade list"
  result :: BacktestResult
  strategy_state :: 'st

text \<open>
  The exit checks of one bar (lines 189 to 217): the positions to close, as
  \<open>(pos_idx, exit_reason, exit_price)\<close>, in the order found.
\<close>

fun exit_checks ::
  "'st strategy \<Rightarrow> rat \<Rightarrow> nat \<Rightarrow> position list \<Rightarrow> 'st
     \<Rightarrow> (error + (nat \<times> string \<times> rat) list) \<times> 'st" where
  "exit_checks strat current_price pos_idx [] st = (Inr [], st)"
| "exit_checks strat current_price pos_idx (p # ps) st =
     (let side = pos_side p;
          sl = pos_stop_loss p;
          tp = pos_take_profit p;
          found = (\<lambda>reason st'.
             case exit_checks strat current_price (Suc pos_idx) ps st' of
               (Inl e, st'') \<Rightarrow> (Inl e, st'')
             | (Inr cs, st'') \<Rightarrow> (Inr ((pos_idx, reason, current_price) # cs), st''))
      in if 0 < sl \<and> ((side = ''BUY'' \<and> current_price \<le> sl) \<or>
                       (side = ''SELL'' \<and> sl \<le> current_price))
         then found ''stop_loss'' st
         else if 0 < tp \<and> ((side = ''BUY'' \<and> tp \<le> current_price) \<or>
                            (side = ''SELL'' \<and> current_price \<le> tp))
         then found ''take_profit'' st
         else (case should_exit strat st p current_price of
                 (Inl e, st') \<Rightarrow> (Inl e, st')
               | (Inr True, st') \<Rightarrow> found ''strategy_exit'' st'
               | (Inr False, st') \<Rightarrow> exit_checks strat current_price (Suc pos_idx) ps st'))"

text \<open>
  The two amounts of a closing: the P\&L before commission, which depends on the side,
  and the commission on both legs.
\<close>

definition gross_pnl :: "string \<Rightarrow> rat \<Rightarrow> rat \<Rightarrow> rat \<Rightarrow> rat" where
  "gross_pnl side entry exit_price' q =
     (if side = ''BUY'' then (exit_price' - entry) * q else (entry - exit_price') * q)"

definition commission_cost :: "Backtester \<Rightarrow> rat \<Rightarrow> rat \<Rightarrow> rat \<Rightarrow> rat" where
  "commission_cost self entry exit_price' q = (entry + exit_price') * q * commission self"

text \<open>
  Closing one position (lines 223 to 260, and the same statements at lines 312 to 344
  for the positions left at the end): the P\&L net of commission, the capital, the trade
  appended to both lists, and one of the two counters. \<open>pnl_percent\<close> divides by
  \<open>entry_price * quantity\<close>.
\<close>

definition settle ::
  "Backtester \<Rightarrow> string \<Rightarrow> position \<Rightarrow> timestamp \<Rightarrow> string \<Rightarrow> rat \<Rightarrow> 'st run_state
     \<Rightarrow> error + 'st run_state" where
  "settle self sname p exit_time' exit_reason exit_price' s =
     (let entry = pos_entry_price p;
          q = pos_quantity p;
          side = pos_side p;
          net = gross_pnl side entry exit_price' q - commission_cost self entry exit_price' q;
          capital' = capital s + net
      in if entry * q = 0 then Inl ZeroDivisionError
         else
           let t = \<lparr>bt_entry_time = pos_entry_time p,
                    bt_exit_time = exit_time',
                    bt_symbol = pos_symbol p,
                    bt_side = side,
                    bt_entry_price = entry,
                    bt_exit_price = exit_price',
                    bt_quantity = q,
                    bt_pnl = net,
                    bt_pnl_percent = net / (entry * q) * 100,
                    bt_exit_reason = exit_reason,
                    bt_strategy = sname\<rparr>;
               r = result s;
               r' = r\<lparr>result_trades := result_trades r @ [t]\<rparr>;
               r'' = (if 0 < net then r'\<lparr>winning_trades := winning_trades r' + 1\<rparr>
                      else r'\<lparr>losing_trades := losing_trades r' + 1\<rparr>)
           in Inr (s\<lparr>capital := capital', trades_list := trades_list s @ [t],
                      result := r''\<rparr>))"

text \<open>
  \<open>for pos_idx, exit_reason, exit_price in reversed(positions_to_close)\<close>: the
  argument is the reversed list. \<open>positions.pop(pos_idx)\<close> raises \<open>IndexError\<close> out of
  range.
\<close>

fun close_positions ::
  "Backtester \<Rightarrow> string \<Rightarrow> timestamp \<Rightarrow> (nat \<times> string \<times> rat) list \<Rightarrow> 'st run_state
     \<Rightarrow> error + 'st run_state" where
  "close_positions self sname current_time [] s = Inr s"
| "close_positions self sname current_time ((pos_idx, exit_reason, exit_price') # cs) s =
     (if length (positions s) \<le> pos_idx then Inl IndexError
      else
        let p = positions s ! pos_idx;
            s' = s\<lparr>positions := take pos_idx (positions s) @ drop (Suc pos_idx) (positions s)\<rparr>
        in case settle self sname p current_time exit_reason exit_price' s' of
             Inl e \<Rightarrow> Inl e
           | Inr s'' \<Rightarrow> close_positions self sname current_time cs s'')"

definition unrealized_pnl :: "rat \<Rightarrow> position list \<Rightarrow> rat" where
  "unrealized_pnl current_price ps =
     foldl (\<lambda>u p. if pos_side p = ''BUY''
                   then u + (current_price - pos_entry_price p) * pos_quantity p
                   else u + (pos_entry_price p - current_price) * pos_quantity p) 0 ps"

text \<open>
  \<open>generate_signal\<close> inside \<open>try\<close>: an exception becomes a HOLD signal at the current
  price (lines 263 to 267).
\<close>

definition next_signal :: "'st strategy \<Rightarrow> 'st \<Rightarrow> bar list \<Rightarrow> rat \<Rightarrow> signal \<times> 'st" where
  "next_signal strat st current_data current_price =
     (case generate_signal strat st current_data of
        (Inl e, st') \<Rightarrow>
          (\<lparr>sig_action = Some ''HOLD'', sig_price = Some current_price, sig_stop_loss = None,
            sig_take_profit = None, sig_confidence = Some 0\<rparr>, st')
      | (Inr g, st') \<Rightarrow> (g, st'))"

text \<open>
  Opening a position on a BUY or SELL signal when none is open (lines 270 to 289). The
  quantity divides by the entry price.
\<close>

definition open_position ::
  "dataframe \<Rightarrow> rat \<Rightarrow> timestamp \<Rightarrow> rat \<Rightarrow> signal \<Rightarrow> 'st run_state \<Rightarrow> error + 'st run_state" where
  "open_position df position_size_pct current_time current_price sg s =
     (if sig_action sg \<in> {Some ''BUY'', Some ''SELL''} \<and> length (positions s) = 0 then
        let side = get_or (sig_action sg) [];
            entry = get_or (sig_price sg) current_price;
            position_value = capital s * position_size_pct
        in if entry = 0 then Inl ZeroDivisionError
           else
             let p = \<lparr>pos_entry_time = current_time,
                      pos_entry_price = entry,
                      pos_quantity = position_value / entry,
                      pos_side = side,
                      pos_symbol = get_or (df_symbol df) ''UNKNOWN'',
                      pos_stop_loss = get_or (sig_stop_loss sg) 0,
                      pos_take_profit = get_or (sig_take_profit sg) 0,
                      pos_confidence = get_or (sig_confidence sg) 0\<rparr>
             in Inr (s\<lparr>positions := positions s @ [p]\<rparr>)
      else Inr s)"

text \<open>One iteration of the loop over the bars, for the index \<open>i\<close> (lines 185 to 304).\<close>

definition bar_step ::
  "Backtester \<Rightarrow> 'st strategy \<Rightarrow> dataframe \<Rightarrow> rat \<Rightarrow> nat \<Rightarrow> 'st run_state
     \<Rightarrow> error + 'st run_state" where
  "bar_step self strat df position_size_pct i s =
     (let current_data = take (Suc i) (df_rows df);
          current_price = bar_close (df_rows df ! i);
          current_time = bar_timestamp (df_rows df ! i)
      in case exit_checks strat current_price 0 (positions s) (strategy_state s) of
           (Inl e, st1) \<Rightarrow> Inl e
         | (Inr positions_to_close, st1) \<Rightarrow>
             (case close_positions self (strategy_name strat) current_time
                     (rev positions_to_close) (s\<lparr>strategy_state := st1\<rparr>) of
                Inl e \<Rightarrow> Inl e
              | Inr s1 \<Rightarrow>
                  let (sg, st2) = next_signal strat (strategy_state s1) current_data current_price
                  in case open_position df position_size_pct current_time current_price sg
                            (s1\<lparr>strategy_state := st2\<rparr>) of
                       Inl e \<Rightarrow> Inl e
                     | Inr s3 \<Rightarrow>
                         Inr (s3\<lparr>curve := curve s3 @
                                [capital s3 + unrealized_pnl current_price (positions s3)]\<rparr>)))"

fun run_bars ::
  "Backtester \<Rightarrow> 'st strategy \<Rightarrow> dataframe \<Rightarrow> rat \<Rightarrow> nat list \<Rightarrow> 'st run_state
     \<Rightarrow> error + 'st run_state" where
  "run_bars self strat df position_size_pct [] s = Inr s"
| "run_bars self strat df position_size_pct (i # is) s =
     (case bar_step self strat df position_size_pct i s of
        Inl e \<Rightarrow> Inl e
      | Inr s' \<Rightarrow> run_bars self strat df position_size_pct is s')"

text \<open>The positions still open after the last bar, closed in list order (lines 307 to 344).\<close>

fun close_remaining ::
  "Backtester \<Rightarrow> string \<Rightarrow> timestamp \<Rightarrow> rat \<Rightarrow> position list \<Rightarrow> 'st run_state
     \<Rightarrow> error + 'st run_state" where
  "close_remaining self sname final_time final_price [] s = Inr s"
| "close_remaining self sname final_time final_price (p # ps) s =
     (case settle self sname p final_time ''end_of_data'' final_price s of
        Inl e \<Rightarrow> Inl e
      | Inr s' \<Rightarrow> close_remaining self sname final_time final_price ps s')"

definition min_period :: "'st strategy \<Rightarrow> int" where
  "min_period strat =
     (let m = 50;
          m = (case slow_period strat of None \<Rightarrow> m | Some k \<Rightarrow> max m (k + 10));
          m = (case rsi_period strat of None \<Rightarrow> m | Some k \<Rightarrow> max m (k + 10));
          m = (case period strat of None \<Rightarrow> m | Some k \<Rightarrow> max m (k + 10))
      in m)"

definition run_backtest ::
  "Backtester \<Rightarrow> 'st strategy \<Rightarrow> 'st \<Rightarrow> dataframe \<Rightarrow> rat option \<Rightarrow> rat \<Rightarrow> error + BacktestResult" where
  "run_backtest self strat st0 df initial_capital' position_size_pct =
     (let initial = (case initial_capital' of None \<Rightarrow> initial_capital self | Some c \<Rightarrow> c);
          n = length (df_rows df)
      in if n < 50 then Inr BacktestResult_init
         else
           let s0 = \<lparr>capital = initial, curve = [initial], positions = [], trades_list = [],
                     result = BacktestResult_init, strategy_state = st0\<rparr>
           in case run_bars self strat df position_size_pct [nat (min_period strat)..<n] s0 of
                Inl e \<Rightarrow> Inl e
              | Inr s1 \<Rightarrow>
                  (case close_remaining self (strategy_name strat)
                          (bar_timestamp (df_rows df ! (n - 1))) (bar_close (df_rows df ! (n - 1)))
                          (positions s1) s1 of
                     Inl e \<Rightarrow> Inl e
                   | Inr s2 \<Rightarrow>
                       let trs = trades_list s2;
                           r = (result s2)\<lparr>total_trades := length trs, equity_curve := curve s2\<rparr>
                       in if 0 < length trs
                          then Inr (r\<lparr>total_pnl := sum_list (map bt_pnl trs),
                                      win_rate := (if 0 < total_trades r
                                                   then of_nat (winning_trades r)
                                                          / of_nat (total_trades r) * 100
                                                   else 0)\<rparr>)
                          else Inr r))"

text \<open>
  What the properties of a run are stated with: the P\&L formula of a recorded trade,
  the agreement of the counters with the recorded trades, and the sides of the open
  positions.
\<close>

definition net_pnl_ok :: "Backtester \<Rightarrow> bt_trade \<Rightarrow> bool" where
  "net_pnl_ok self t =
     (bt_side t \<in> {''BUY'', ''SELL''} \<and>
      bt_pnl t =
        (if bt_side t = ''BUY'' then (bt_exit_price t - bt_entry_price t) * bt_quantity t
         else - ((bt_exit_price t - bt_entry_price t) * bt_quantity t))
        - (bt_entry_price t + bt_exit_price t) * bt_quantity t * commission self)"

definition counters_ok :: "'st run_state \<Rightarrow> bool" where
  "counters_ok s =
     (result_trades (result s) = trades_list s \<and>
      winning_trades (result s) = length (filter (\<lambda>t. 0 < bt_pnl t) (trades_list s)) \<and>
      losing_trades (result s) = length (filter (\<lambda>t. bt_pnl t \<le> 0) (trades_list s)))"

definition sides_ok :: "position list \<Rightarrow> bool" where
  "sides_ok ps = list_all (\<lambda>p. pos_side p \<in> {''BUY'', ''SELL''}) ps"

definition run_inv :: "Backtester \<Rightarrow> 'st run_state \<Rightarrow> bool" where
  "run_inv self s =
     (counters_ok s \<and> list_all (net_pnl_ok self) (trades_list s) \<and> sides_ok (positions s))"

text \<open>
  A run with one trade: 52 bars, all closing at 100 but the last at 110; a strategy
  that buys once, when it is shown 51 bars, with a take-profit at 110; capital 10000,
  a tenth of it per position, commission 0.001. And a run whose one trade ends with a
  P\&L of 0: 52 bars closing at 100, no commission.
\<close>

definition one_trade_frame :: dataframe where
  "one_trade_frame =
     \<lparr>df_rows = map (\<lambda>k. \<lparr>bar_timestamp = k, bar_open = 100, bar_high = 100,
                               bar_low = 100, bar_close = 100, bar_volume = 1\<rparr>) [0..<51]
                 @ [\<lparr>bar_timestamp = 51, bar_open = 100, bar_high = 110, bar_low = 100,
                     bar_close = 110, bar_volume = 1\<rparr>],
      df_symbol = None\<rparr>"

definition buy_once :: "unit strategy" where
  "buy_once =
     \<lparr>strategy_name = ''Buy once'', slow_period = None, rsi_period = None, period = None,
      generate_signal = (\<lambda>st current_data.
         (Inr \<lparr>sig_action = Some (if length current_data = 51 then ''BUY'' else ''HOLD''),
               sig_price = None, sig_stop_loss = None, sig_take_profit = Some 110,
               sig_confidence = None\<rparr>, st)),
      should_exit = (\<lambda>st p current_price. (Inr False, st))\<rparr>"

definition default_backtester :: Backtester where
  "default_backtester = \<lparr>initial_capital = 100000, commission = 1 / 1000\<rparr>"

definition one_trade_result :: "error + BacktestResult" where
  "one_trade_result = run_backtest default_backtester buy_once () one_trade_frame (Some 10000) (1 / 10)"

definition flat_frame :: dataframe where
  "flat_frame =
     \<lparr>df_rows = map (\<lambda>k. \<lparr>bar_timestamp = k, bar_open = 100, bar_high = 100,
                               bar_low = 100, bar_close = 100, bar_volume = 1\<rparr>) [0..<52],
      df_symbol = None\<rparr>"

definition free_backtester :: Backtester where
  "free_backtester = \<lparr>initial_capital = 100000, commission = 0\<rparr>"

definition flat_trade_result :: "error + BacktestResult" where
  "flat_trade_result = run_backtest free_backtester buy_once () flat_frame None (1 / 10)"

section \<open>data\_ingestion.py: the lexical sentiment scorer\<close>

text \<open>
  A text is a string of code points below 256. \<open>str.lower()\<close> maps \<open>A\<close> to \<open>Z\<close> (65
  to 90), and the capital letters of Latin-1 (192 to 222, without the multiplication
  sign 215), to the code point 32 above and leaves the rest.
\<close>

definition lower_char :: "char \<Rightarrow> char" where
  "lower_char c =
     (let n = of_char c :: nat
      in if (65 \<le> n \<and> n \<le> 90) \<or> (192 \<le> n \<and> n \<le> 222 \<and> n \<noteq> 215)
         then char_of (n + 32) else c)"

definition str_lower :: "string \<Rightarrow> string" where
  "str_lower s = map lower_char s"

text \<open>\<open>word in text\<close>: the word occurs in the text as a substring.\<close>

fun starts_with :: "string \<Rightarrow> string \<Rightarrow> bool" where
  "starts_with [] t = True"
| "starts_with (a # w) [] = False"
| "starts_with (a # w) (c # t) = (a = c \<and> starts_with w t)"

fun contains :: "string \<Rightarrow> string \<Rightarrow> bool" where
  "contains w [] = (w = [])"
| "contains w (c # t) = (starts_with w (c # t) \<or> contains w t)"

definition positive_words :: "string list" where
  "positive_words =
     [''profit'', ''gain'', ''rise'', ''surge'', ''growth'', ''positive'', ''bullish'', ''up'',
      ''increase'']"

definition negative_words :: "string list" where
  "negative_words =
     [''loss'', ''fall'', ''decline'', ''drop'', ''negative'', ''bearish'', ''down'',
      ''decrease'', ''crash'']"

definition clip :: "rat \<Rightarrow> rat \<Rightarrow> rat \<Rightarrow> rat" where
  "clip x lo hi = min (max x lo) hi"

definition analyze_sentiment :: "string \<Rightarrow> rat" where
  "analyze_sentiment body =
     (if body = [] then 0
      else
        let text_lower = str_lower body;
            positive_count = length (filter (\<lambda>word. contains word text_lower) positive_words);
            negative_count = length (filter (\<lambda>word. contains word text_lower) negative_words)
        in if positive_count = 0 \<and> negative_count = 0 then 0
           else
             let score = (of_nat positive_count - of_nat negative_count)
                           / of_nat (positive_count + negative_count + 1)
             in clip score (- 1) 1)"

text \<open>
  The scorer as the specification words it: the counts are numbers of occurrences, a
  word repeated \<open>k\<close> times contributing \<open>k\<close>.
\<close>

fun occurrences :: "string \<Rightarrow> string \<Rightarrow> nat" where
  "occurrences w [] = 0"
| "occurrences w (c # t) = (if starts_with w (c # t) then 1 else 0) + occurrences w t"

definition sentiment_by_occurrences :: "string \<Rightarrow> rat" where
  "sentiment_by_occurrences body =
     (let text_lower = str_lower body;
          pos = sum_list (map (\<lambda>word. occurrences word text_lower) positive_words);
          neg = sum_list (map (\<lambda>word. occurrences word text_lower) negative_words)
      in if body = [] \<or> (pos = 0 \<and> neg = 0) then 0
         else clip ((of_nat pos - of_nat neg) / of_nat (pos + neg + 1)) (- 1) 1)"

section \<open>chart\_patterns.py\<close>





text \<open>
  A detected pattern is a dictionary whose keys vary with the detector: \<open>None\<close> is an
  absent key. The record has the keys that \<open>generate_signal\<close> reads, with the prefix
  \<open>pat_\<close>.
\<close>

record pattern =
  pat_pattern :: "string option"
  pat_type :: "string option"
  pat_breakout :: "bool option"
  pat_is_fake :: "bool option"
  pat_strength :: "rat option"
  pat_confidence :: "rat option"
  pat_support :: "rat option"
  pat_resistance :: "rat option"
  pat_target :: "rat option"
  pat_reason :: "string option"

record ChartPatternDetector =
  patterns_detected :: "pattern list"
  min_pattern_strength :: rat
  volume_confirmation_required :: bool

definition ChartPatternDetector_init :: ChartPatternDetector where
  "ChartPatternDetector_init =
     \<lparr>patterns_detected = [], min_pattern_strength = 1 / 2,
      volume_confirmation_required = True\<rparr>"

text \<open>
  A \<open>ChartPatternStrategy\<close> has the attributes its \<open>__init__\<close> and that of \<open>Strategy\<close>
  set: \<open>name\<close>, \<open>positions\<close>, \<open>signals\<close> (both lists stay empty), \<open>detector\<close> and
  \<open>pattern_types\<close>.
\<close>

record ChartPatternStrategy =
  cps_name :: string
  cps_detector :: ChartPatternDetector
  cps_pattern_types :: "string list"

definition ChartPatternStrategy_init :: "string list option \<Rightarrow> ChartPatternStrategy" where
  "ChartPatternStrategy_init pattern_types =
     \<lparr>cps_name = ''Chart Patterns'',
      cps_detector = ChartPatternDetector_init,
      cps_pattern_types =
        (case pattern_types of None \<Rightarrow> [''all''] | Some [] \<Rightarrow> [''all''] | Some ts \<Rightarrow> ts)\<rparr>"

text \<open>
  \<open>self.min_pattern_strength\<close>, read in \<open>generate_signal\<close> with \<open>self\<close> the strategy.
  The attribute is set on the detector (\<open>ChartPatternDetector.__init__\<close>); no
  \<open>__init__\<close> sets it on the strategy and neither \<open>ChartPatternStrategy\<close> nor
  \<open>Strategy\<close> defines it or a \<open>__getattr__\<close>, so the lookup raises \<open>AttributeError\<close>.
\<close>

definition self_min_pattern_strength :: "ChartPatternStrategy \<Rightarrow> error + rat" where
  "self_min_pattern_strength self = Inl (AttributeError ''min_pattern_strength'')"

text \<open>The signal dictionary of \<open>generate_signal\<close>; its keys carry the prefix \<open>cs_\<close>.\<close>

record chart_signal =
  cs_action :: string
  cs_confidence :: rat
  cs_price :: rat
  cs_is_fake :: bool
  cs_fake_reason :: "string option"
  cs_stop_loss :: "rat option"
  cs_take_profit :: "rat option"
  cs_pattern :: "string option"
  cs_signal_type :: "string option"
  cs_entry_reason :: "string option"
  cs_pattern_strength :: "rat option"

definition hold_signal :: "rat \<Rightarrow> bool \<Rightarrow> string option \<Rightarrow> chart_signal" where
  "hold_signal p fake why =
     \<lparr>cs_action = ''HOLD'', cs_confidence = 0, cs_price = p, cs_is_fake = fake,
      cs_fake_reason = why, cs_stop_loss = None, cs_take_profit = None, cs_pattern = None,
      cs_signal_type = None, cs_entry_reason = None, cs_pattern_strength = None\<rparr>"

text \<open>The filter loop of \<open>generate_signal\<close> (lines 646 to 661).\<close>

fun valid_patterns :: "ChartPatternStrategy \<Rightarrow> pattern list \<Rightarrow> error + pattern list" where
  "valid_patterns self [] = Inr []"
| "valid_patterns self (p # ps) =
     (if \<not> get_or (pat_breakout p) False then valid_patterns self ps
      else if get_or (pat_is_fake p) False then valid_patterns self ps
      else
        let pattern_strength = get_or (pat_strength p) (1 / 2) in
        case self_min_pattern_strength self of
          Inl e \<Rightarrow> Inl e
        | Inr m \<Rightarrow>
            if pattern_strength < m then valid_patterns self ps
            else (case valid_patterns self ps of
                    Inl e \<Rightarrow> Inl e
                  | Inr vs \<Rightarrow> Inr (p # vs)))"

text \<open>
  \<open>generate_signal\<close>, given the number of rows of the frame, its last close and the
  list that \<open>self.detector.detect_all_patterns(data)\<close> returns. The sort is stable and
  descending in the average of strength and confidence.
\<close>

definition ChartPatternStrategy_generate_signal ::
  "ChartPatternStrategy \<Rightarrow> nat \<Rightarrow> rat \<Rightarrow> pattern list \<Rightarrow> error + chart_signal" where
  "ChartPatternStrategy_generate_signal self n_rows last_close patterns =
     (if n_rows < 50 then Inr (hold_signal 0 False None)
      else if patterns = [] then Inr (hold_signal last_close False None)
      else
        case valid_patterns self patterns of
          Inl e \<Rightarrow> Inl e
        | Inr valid \<Rightarrow>
            if valid = [] then
              (case filter (\<lambda>p. get_or (pat_is_fake p) False) patterns of
                 [] \<Rightarrow> Inr (hold_signal last_close False None)
               | f # fs \<Rightarrow>
                   Inr (hold_signal last_close True
                          (Some (get_or (pat_reason f) ''Pattern detected but not confirmed''))))
            else
              let sorted_valid =
                    sort_key (\<lambda>x. - ((get_or (pat_strength x) 0 + get_or (pat_confidence x) 0) / 2))
                      valid;
                  best_pattern = hd sorted_valid;
                  current_price = last_close
              in (case (pat_type best_pattern, pat_pattern best_pattern) of
                   (None, _) \<Rightarrow> Inl (KeyError ''type'')
                 | (Some ty, None) \<Rightarrow> Inl (KeyError ''pattern'')
                 | (Some ty, Some nm) \<Rightarrow>
                     if ty = ''Bullish'' then
                       Inr \<lparr>cs_action = ''BUY'',
                            cs_confidence = get_or (pat_strength best_pattern)
                                              (get_or (pat_confidence best_pattern) (6 / 10)),
                            cs_price = current_price,
                            cs_is_fake = False,
                            cs_fake_reason = None,
                            cs_stop_loss = Some (get_or (pat_support best_pattern)
                                                   (current_price * (98 / 100))),
                            cs_take_profit = Some (get_or (pat_target best_pattern)
                                                     (current_price * (103 / 100))),
                            cs_pattern = Some nm,
                            cs_signal_type = Some ''Bullish Pattern'',
                            cs_entry_reason = Some (nm @ '' breakout confirmed (Real Signal)''),
                            cs_pattern_strength = Some (get_or (pat_strength best_pattern) (7 / 10))\<rparr>
                     else
                       Inr \<lparr>cs_action = ''SELL'',
                            cs_confidence = get_or (pat_strength best_pattern)
                                              (get_or (pat_confidence best_pattern) (6 / 10)),
                            cs_price = current_price,
                            cs_is_fake = False,
                            cs_fake_reason = None,
                            cs_stop_loss = Some (get_or (pat_resistance best_pattern)
                                                   (current_price * (102 / 100))),
                            cs_take_profit = Some (get_or (pat_target best_pattern)
                                                     (current_price * (97 / 100))),
                            cs_pattern = Some nm,
                            cs_signal_type = Some ''Bearish Pattern'',
                            cs_entry_reason = Some (nm @ '' breakout confirmed (Real Signal)''),
                            cs_pattern_strength = Some (get_or (pat_strength best_pattern) (7 / 10))\<rparr>))"

text \<open>
  What \<open>detect_double_top\<close> returns for two peaks at 100, a valley at 95 and a close
  below the valley: a confirmed pattern that is not flagged fake.
\<close>

definition double_top :: pattern where
  "double_top =
     \<lparr>pat_pattern = Some ''Double Top'', pat_type = Some ''Bearish'', pat_breakout = Some True,
      pat_is_fake = None, pat_strength = None, pat_confidence = Some (65 / 100),
      pat_support = Some 95, pat_resistance = Some 100, pat_target = Some 90,
      pat_reason = None\<rparr>"



section \<open>Properties\<close>

subsection \<open>Rounding\<close>

lemma py_round_zero: "py_round 0 n = 0"
  by (simp add: py_round_def round_half_even_def)


lemma max_position_size_reset [simp]:
  "max_position_size (reset_daily_stats self now) = max_position_size self"
  by (simp add: reset_daily_stats_def)

subsection \<open>Position sizing\<close>






subsection \<open>The trade ledger\<close>

text \<open>
  C9. Every SHORT trade that \<open>create_trade\<close> creates without an explicit quantity has
  the automatic quantity 0: the validation of a SHORT trade leaves \<open>entry < sl\<close>, where
  the sizing helper returns 0, so the trade is recorded with quantity, risk amount,
  reward amount and risk/reward ratio all 0. Such trades are created: any SHORT request
  with \<open>target < entry < sl\<close> and a non-zero entry returns a trade.
\<close>

theorem short_auto_quantity_zero:
  "(\<forall>t self'. create_trade self now symb SHORT entry sl target None rp strat inds = (Inr t, self')
      \<longrightarrow> entry < sl \<and> TradeSetup_calculate_position_size self entry sl rp = 0 \<and>
          quantity t = 0 \<and> risk_amount t = 0 \<and> reward_amount t = 0 \<and> risk_reward_ratio t = 0
          \<and> trades self' = trades self @ [t])
   \<and> (target < entry \<and> entry < sl \<and> entry \<noteq> 0
      \<longrightarrow> (\<exists>t. fst (create_trade self now symb SHORT entry sl target None rp strat inds) = Inr t))"
  by (auto simp add: create_trade_def TradeSetup_calculate_position_size_def Let_def
        py_round_zero split: if_splits)

theorem short_auto_quantity_zero_witness:
  "\<exists>t. fst (create_trade (set_account_balance TradeSetup_init 10000) morning ''BTCUSDT'' SHORT
             100 105 90 None 1 ''Manual'' None) = Inr t
       \<and> quantity t = 0 \<and> risk_amount t = 0 \<and> reward_amount t = 0 \<and> risk_reward_ratio t = 0"
proof -
  let ?c = "create_trade (set_account_balance TradeSetup_init 10000) morning ''BTCUSDT'' SHORT
             100 105 90 None 1 ''Manual'' None"
  note th = short_auto_quantity_zero
              [of "set_account_balance TradeSetup_init 10000" morning "''BTCUSDT''"
                  100 105 90 1 "''Manual''" None]
  from th obtain t where t: "fst ?c = Inr t" by auto
  then have "?c = (Inr t, snd ?c)" by (metis prod.collapse)
  with th have "quantity t = 0 \<and> risk_amount t = 0 \<and> reward_amount t = 0
                 \<and> risk_reward_ratio t = 0" by blast
  with t show ?thesis by blast
qed

text \<open>
  C8 (the code at a failing input). In the ledger \<open>two_long_trades\<close> one trade is
  closed at its target with a profit of 10 and the other is still ACTIVE with an
  unrealised profit of 5. \<open>get_trade_summary\<close> counts both as winning and divides by the
  one closed trade: the reported win rate is 200.
\<close>

theorem win_rate_counts_open_trades:
  "map status (trades two_long_trades) = [TARGET_HIT, ACTIVE]
   \<and> map pnl (trades two_long_trades) = [10, 5]
   \<and> summary_closed_trades (get_trade_summary two_long_trades) = 1
   \<and> summary_winning_trades (get_trade_summary two_long_trades) = 2
   \<and> summary_win_rate (get_trade_summary two_long_trades) = 200"
  by code_simp

subsection \<open>Price ordering in the ledger\<close>




























subsection \<open>The backtest\<close>

lemma gross_pnl_negated:
  "gross_pnl side entry ex q =
     (if side = ''BUY'' then (ex - entry) * q else - ((ex - entry) * q))"
  by (simp add: gross_pnl_def algebra_simps)

lemma settle_shape:
  assumes "settle self sname p et er ep s = Inr s'"
  shows "\<exists>t. trades_list s' = trades_list s @ [t]
           \<and> result_trades (result s') = result_trades (result s) @ [t]
           \<and> winning_trades (result s') =
               winning_trades (result s) + (if 0 < bt_pnl t then 1 else 0)
           \<and> losing_trades (result s') =
               losing_trades (result s) + (if 0 < bt_pnl t then 0 else 1)
           \<and> bt_side t = pos_side p \<and> bt_entry_price t = pos_entry_price p
           \<and> bt_exit_price t = ep \<and> bt_quantity t = pos_quantity p
           \<and> bt_pnl t = gross_pnl (pos_side p) (pos_entry_price p) ep (pos_quantity p)
                        - commission_cost self (pos_entry_price p) ep (pos_quantity p)
           \<and> positions s' = positions s \<and> strategy_state s' = strategy_state s
           \<and> curve s' = curve s"
  using assms
  by (cases "pos_entry_price p * pos_quantity p = 0")
     (auto simp add: settle_def Let_def)

lemma settle_inv:
  assumes st: "settle self sname p et er ep s = Inr s'"
    and c: "counters_ok s" and n: "list_all (net_pnl_ok self) (trades_list s)"
    and sd: "pos_side p \<in> {''BUY'', ''SELL''}"
  shows "counters_ok s' \<and> list_all (net_pnl_ok self) (trades_list s')
         \<and> positions s' = positions s"
proof -
  from settle_shape[OF st] obtain t where
    tl: "trades_list s' = trades_list s @ [t]"
    and rt: "result_trades (result s') = result_trades (result s) @ [t]"
    and w: "winning_trades (result s') =
               winning_trades (result s) + (if 0 < bt_pnl t then 1 else 0)"
    and l: "losing_trades (result s') =
               losing_trades (result s) + (if 0 < bt_pnl t then 0 else 1)"
    and f: "bt_side t = pos_side p" "bt_entry_price t = pos_entry_price p"
           "bt_exit_price t = ep" "bt_quantity t = pos_quantity p"
    and pn: "bt_pnl t = gross_pnl (pos_side p) (pos_entry_price p) ep (pos_quantity p)
                        - commission_cost self (pos_entry_price p) ep (pos_quantity p)"
    and ps: "positions s' = positions s"
    by blast
  have "counters_ok s'"
    using c tl rt w l by (simp add: counters_ok_def)
  moreover have "net_pnl_ok self t"
    unfolding net_pnl_ok_def f pn gross_pnl_negated commission_cost_def using sd by simp
  ultimately show ?thesis using n tl ps by simp
qed

lemma sides_ok_pop:
  "sides_ok ps \<Longrightarrow> i < length ps \<Longrightarrow>
     pos_side (ps ! i) \<in> {''BUY'', ''SELL''} \<and> sides_ok (take i ps @ drop (Suc i) ps)"
proof -
  assume a: "sides_ok ps" and i: "i < length ps"
  have "set (take i ps @ drop (Suc i) ps) \<subseteq> set ps"
    using set_take_subset set_drop_subset by fastforce
  moreover have "ps ! i \<in> set ps" using i by simp
  ultimately show ?thesis using a unfolding sides_ok_def list_all_iff by blast
qed

lemma close_positions_inv:
  "close_positions self sname ct cs s = Inr s' \<Longrightarrow> run_inv self s \<Longrightarrow> run_inv self s'"
proof (induction cs arbitrary: s)
  case Nil
  then show ?case by simp
next
  case (Cons c cs)
  obtain idx reason ep where c: "c = (idx, reason, ep)" by (cases c)
  let ?s1 = "s\<lparr>positions := take idx (positions s) @ drop (Suc idx) (positions s)\<rparr>"
  from Cons.prems(1) have idx: "idx < length (positions s)"
    by (auto simp add: c split: if_splits)
  from Cons.prems(1) idx obtain s2 where
    s2: "settle self sname (positions s ! idx) ct reason ep ?s1 = Inr s2"
    and rest: "close_positions self sname ct cs s2 = Inr s'"
    by (auto simp add: c Let_def split: sum.splits)
  from Cons.prems(2) have inv: "counters_ok s" "list_all (net_pnl_ok self) (trades_list s)"
    "sides_ok (positions s)" by (simp_all add: run_inv_def)
  from sides_ok_pop[OF inv(3) idx] have sd: "pos_side (positions s ! idx) \<in> {''BUY'', ''SELL''}"
    and so: "sides_ok (positions ?s1)" by simp_all
  have c1: "counters_ok ?s1" using inv(1) by (simp add: counters_ok_def)
  have n1: "list_all (net_pnl_ok self) (trades_list ?s1)" using inv(2) by simp
  from settle_inv[OF s2 c1 n1 sd] so have "run_inv self s2" by (simp add: run_inv_def)
  with rest show ?case by (rule Cons.IH)
qed

lemma close_remaining_inv:
  "close_remaining self sname ft fp ps s = Inr s' \<Longrightarrow> sides_ok ps \<Longrightarrow>
     counters_ok s \<Longrightarrow> list_all (net_pnl_ok self) (trades_list s) \<Longrightarrow>
     counters_ok s' \<and> list_all (net_pnl_ok self) (trades_list s')"
proof (induction ps arbitrary: s)
  case Nil
  then show ?case by simp
next
  case (Cons p ps)
  from Cons.prems(1) obtain s1 where
    s1: "settle self sname p ft ''end_of_data'' fp s = Inr s1"
    and rest: "close_remaining self sname ft fp ps s1 = Inr s'"
    by (auto split: sum.splits)
  from Cons.prems(2) have sd: "pos_side p \<in> {''BUY'', ''SELL''}" and so: "sides_ok ps"
    by (simp_all add: sides_ok_def)
  from settle_inv[OF s1 Cons.prems(3,4) sd] rest so show ?case
    using Cons.IH by blast
qed

lemma open_position_inv:
  assumes "open_position df psp ct cp sg s = Inr s'" and "run_inv self s"
  shows "run_inv self s'"
proof (cases "sig_action sg \<in> {Some ''BUY'', Some ''SELL''} \<and> length (positions s) = 0")
  case False
  then have "s' = s" using assms(1) by (auto simp add: open_position_def)
  then show ?thesis using assms(2) by simp
next
  case True
  then have sd: "get_or (sig_action sg) [] \<in> {''BUY'', ''SELL''}"
    by (auto simp add: get_or_def)
  from True assms(1) obtain p where p: "s' = s\<lparr>positions := positions s @ [p]\<rparr>"
    and ps: "pos_side p = get_or (sig_action sg) []"
    by (auto simp add: open_position_def Let_def split: if_splits)
  show ?thesis using assms(2) sd ps
    by (simp add: p run_inv_def counters_ok_def sides_ok_def)
qed

lemma bar_step_inv:
  assumes "bar_step self strat df psp i s = Inr s'" and "run_inv self s"
  shows "run_inv self s'"
proof -
  let ?cp = "bar_close (df_rows df ! i)"
  let ?ct = "bar_timestamp (df_rows df ! i)"
  obtain r1 st1 where ec: "exit_checks strat ?cp 0 (positions s) (strategy_state s) = (r1, st1)"
    by (cases "exit_checks strat ?cp 0 (positions s) (strategy_state s)")
  from assms(1) ec obtain cs where r1: "r1 = Inr cs"
    by (cases r1) (auto simp add: bar_step_def Let_def)
  from assms(1) ec r1 obtain s1 where
    s1: "close_positions self (strategy_name strat) ?ct (rev cs) (s\<lparr>strategy_state := st1\<rparr>)
           = Inr s1"
    by (auto simp add: bar_step_def Let_def split: sum.splits)
  have "run_inv self (s\<lparr>strategy_state := st1\<rparr>)"
    using assms(2) by (simp add: run_inv_def counters_ok_def)
  with s1 have i1: "run_inv self s1" by (rule close_positions_inv)
  obtain sg st2 where gs:
    "next_signal strat (strategy_state s1) (take (Suc i) (df_rows df)) ?cp = (sg, st2)"
    by (cases "next_signal strat (strategy_state s1) (take (Suc i) (df_rows df)) ?cp")
  from assms(1) ec r1 s1 gs obtain s3 where
    s3: "open_position df psp ?ct ?cp sg (s1\<lparr>strategy_state := st2\<rparr>) = Inr s3"
    and s': "s' = s3\<lparr>curve := curve s3 @ [capital s3 + unrealized_pnl ?cp (positions s3)]\<rparr>"
    by (auto simp add: bar_step_def Let_def split: sum.splits)
  have "run_inv self (s1\<lparr>strategy_state := st2\<rparr>)"
    using i1 by (simp add: run_inv_def counters_ok_def)
  with s3 have "run_inv self s3" by (rule open_position_inv)
  then show ?thesis by (simp add: s' run_inv_def counters_ok_def)
qed

lemma run_bars_inv:
  "run_bars self strat df psp is s = Inr s' \<Longrightarrow> run_inv self s \<Longrightarrow> run_inv self s'"
proof (induction "is" arbitrary: s)
  case Nil
  then show ?case by simp
next
  case (Cons i "is")
  from Cons.prems(1) obtain s1 where s1: "bar_step self strat df psp i s = Inr s1"
    and rest: "run_bars self strat df psp is s1 = Inr s'"
    by (auto split: sum.splits)
  from bar_step_inv[OF s1 Cons.prems(2)] rest show ?case by (rule Cons.IH[rotated])
qed


lemma run_backtest_result:
  assumes run: "run_backtest self strat st0 df ic psp = Inr r"
  shows "list_all (net_pnl_ok self) (result_trades r)
         \<and> total_trades r = length (result_trades r)
         \<and> winning_trades r = length (filter (\<lambda>t. 0 < bt_pnl t) (result_trades r))
         \<and> losing_trades r = length (filter (\<lambda>t. bt_pnl t \<le> 0) (result_trades r))
         \<and> (0 < total_trades r \<longrightarrow>
              win_rate r = of_nat (winning_trades r) / of_nat (total_trades r) * 100)"
proof (cases "length (df_rows df) < 50")
  case True
  then have "r = BacktestResult_init" using run by (simp add: run_backtest_def Let_def)
  then show ?thesis by (simp add: BacktestResult_init_def)
next
  case False
  define n where "n = length (df_rows df)"
  define c0 where "c0 = (case ic of None \<Rightarrow> initial_capital self | Some c \<Rightarrow> c)"
  define s0 :: "'a run_state" where
    "s0 = \<lparr>capital = c0, curve = [c0], positions = [], trades_list = [],
           result = BacktestResult_init, strategy_state = st0\<rparr>"
  have i0: "run_inv self s0"
    by (simp add: s0_def run_inv_def counters_ok_def sides_ok_def BacktestResult_init_def)
  from run False obtain s1 where
    s1: "run_bars self strat df psp [nat (min_period strat)..<n] s0 = Inr s1"
    by (auto simp add: run_backtest_def Let_def n_def s0_def c0_def split: sum.splits)
  from run False s1 obtain s2 where
    s2: "close_remaining self (strategy_name strat) (bar_timestamp (df_rows df ! (n - 1)))
           (bar_close (df_rows df ! (n - 1))) (positions s1) s1 = Inr s2"
    by (auto simp add: run_backtest_def Let_def n_def s0_def c0_def split: sum.splits)
  have r: "result_trades r = result_trades (result s2)
           \<and> total_trades r = length (trades_list s2)
           \<and> winning_trades r = winning_trades (result s2)
           \<and> losing_trades r = losing_trades (result s2)
           \<and> (0 < length (trades_list s2) \<longrightarrow>
                win_rate r = of_nat (winning_trades (result s2))
                               / of_nat (length (trades_list s2)) * 100)"
    using run False s1 s2
    by (auto simp add: run_backtest_def Let_def n_def[symmetric] s0_def[symmetric]
          c0_def[symmetric] split: if_splits)
  from run_bars_inv[OF s1 i0] have i1: "counters_ok s1"
    "list_all (net_pnl_ok self) (trades_list s1)" "sides_ok (positions s1)"
    by (simp_all add: run_inv_def)
  from close_remaining_inv[OF s2 i1(3) i1(1) i1(2)] have i2: "counters_ok s2"
    "list_all (net_pnl_ok self) (trades_list s2)" by simp_all
  show ?thesis using i2 r unfolding counters_ok_def by simp
qed

lemma one_trade_result_value:
  "one_trade_result =
     Inr \<lparr>result_trades =
            [\<lparr>bt_entry_time = 50, bt_exit_time = 51, bt_symbol = ''UNKNOWN'', bt_side = ''BUY'',
              bt_entry_price = 100, bt_exit_price = 110, bt_quantity = 10, bt_pnl = 979 / 10,
              bt_pnl_percent = 979 / 100, bt_exit_reason = ''take_profit'',
              bt_strategy = ''Buy once''\<rparr>],
          equity_curve = [10000, 10000, 100979 / 10],
          total_trades = 1, winning_trades = 1, losing_trades = 0,
          total_pnl = 979 / 10, win_rate = 100\<rparr>"
  by code_simp

lemma flat_trade_result_value:
  "flat_trade_result =
     Inr \<lparr>result_trades =
            [\<lparr>bt_entry_time = 50, bt_exit_time = 51, bt_symbol = ''UNKNOWN'', bt_side = ''BUY'',
              bt_entry_price = 100, bt_exit_price = 100, bt_quantity = 100, bt_pnl = 0,
              bt_pnl_percent = 0, bt_exit_reason = ''end_of_data'',
              bt_strategy = ''Buy once''\<rparr>],
          equity_curve = [100000, 100000, 100000],
          total_trades = 1, winning_trades = 0, losing_trades = 1,
          total_pnl = 0, win_rate = 0\<rparr>"
  by code_simp

text \<open>
  C5. Every trade that \<open>run_backtest\<close> records was opened on the BUY or the SELL side,
  and its net P\&L is \<open>(exit - entry) \<times> quantity\<close> for BUY, the negation of that for
  SELL, minus the commission \<open>(entry + exit) \<times> quantity \<times> commission\<close>. For a BUY trade
  with entry 100, exit 110, quantity 10 and commission rate 0.001 the P\&L before
  commission is 100, the commission is 2.1, and the run that makes exactly this trade
  records a net P\&L of 97.9.
\<close>

theorem backtest_net_pnl:
  "(\<forall>r. run_backtest self strat st0 df ic psp = Inr r \<longrightarrow>
      (\<forall>t \<in> set (result_trades r).
         bt_side t \<in> {''BUY'', ''SELL''} \<and>
         bt_pnl t =
           (if bt_side t = ''BUY'' then (bt_exit_price t - bt_entry_price t) * bt_quantity t
            else - ((bt_exit_price t - bt_entry_price t) * bt_quantity t))
           - (bt_entry_price t + bt_exit_price t) * bt_quantity t * commission self))
   \<and> gross_pnl ''BUY'' 100 110 10 = 100
   \<and> commission_cost default_backtester 100 110 10 = 21 / 10
   \<and> (\<exists>r. run_backtest default_backtester buy_once () one_trade_frame (Some 10000) (1 / 10)
             = Inr r
           \<and> map bt_side (result_trades r) = [''BUY'']
           \<and> map bt_entry_price (result_trades r) = [100]
           \<and> map bt_exit_price (result_trades r) = [110]
           \<and> map bt_quantity (result_trades r) = [10]
           \<and> map bt_pnl (result_trades r) = [979 / 10])"
proof -
  have a: "\<And>r. run_backtest self strat st0 df ic psp = Inr r \<Longrightarrow>
      (\<forall>t \<in> set (result_trades r).
         bt_side t \<in> {''BUY'', ''SELL''} \<and>
         bt_pnl t =
           (if bt_side t = ''BUY'' then (bt_exit_price t - bt_entry_price t) * bt_quantity t
            else - ((bt_exit_price t - bt_entry_price t) * bt_quantity t))
           - (bt_entry_price t + bt_exit_price t) * bt_quantity t * commission self)"
    using run_backtest_result[of self strat st0 df ic psp]
    by (simp add: list_all_iff net_pnl_ok_def)
  have b: "gross_pnl ''BUY'' 100 110 10 = 100" by (simp add: gross_pnl_def)
  have c: "commission_cost default_backtester 100 110 10 = 21 / 10"
    by (simp add: commission_cost_def default_backtester_def)
  have d: "\<exists>r. run_backtest default_backtester buy_once () one_trade_frame (Some 10000) (1 / 10)
             = Inr r
           \<and> map bt_side (result_trades r) = [''BUY'']
           \<and> map bt_entry_price (result_trades r) = [100]
           \<and> map bt_exit_price (result_trades r) = [110]
           \<and> map bt_quantity (result_trades r) = [10]
           \<and> map bt_pnl (result_trades r) = [979 / 10]"
    using one_trade_result_value unfolding one_trade_result_def by simp
  show ?thesis using a b c d by blast
qed

theorem backtest_net_pnl_witness:
  "\<exists>r. run_backtest default_backtester buy_once () one_trade_frame (Some 10000) (1 / 10) = Inr r
       \<and> result_trades r \<noteq> []
       \<and> list_all (net_pnl_ok default_backtester) (result_trades r)"
proof -
  obtain r where r: "run_backtest default_backtester buy_once () one_trade_frame (Some 10000)
                       (1 / 10) = Inr r"
    and ne: "result_trades r \<noteq> []"
    using one_trade_result_value unfolding one_trade_result_def by simp
  from r backtest_net_pnl[of default_backtester buy_once "()" one_trade_frame "Some 10000" "1 / 10"]
  have "list_all (net_pnl_ok default_backtester) (result_trades r)"
    unfolding list_all_iff net_pnl_ok_def by blast
  with r ne show ?thesis by - (rule exI[of _ r], simp)
qed

text \<open>
  C10. In every result of \<open>run_backtest\<close>, \<open>winning_trades\<close> is the number of recorded
  trades with a net P\&L above 0 and \<open>losing_trades\<close> the number of those with a net
  P\&L of 0 or less (a trade with a P\&L of 0 counts as a loss), so that
  \<open>winning_trades + losing_trades = total_trades\<close>, which is the length of the list of
  trades; and \<open>win_rate = winning_trades / total_trades \<times> 100\<close> when there is a trade.
\<close>

theorem backtest_counters:
  "run_backtest self strat st0 df ic psp = Inr r \<Longrightarrow>
     winning_trades r = length (filter (\<lambda>t. 0 < bt_pnl t) (result_trades r))
     \<and> losing_trades r = length (filter (\<lambda>t. bt_pnl t \<le> 0) (result_trades r))
     \<and> winning_trades r + losing_trades r = total_trades r
     \<and> total_trades r = length (result_trades r)
     \<and> (0 < total_trades r \<longrightarrow>
          win_rate r = of_nat (winning_trades r) / of_nat (total_trades r) * 100)"
proof -
  assume run: "run_backtest self strat st0 df ic psp = Inr r"
  note res = run_backtest_result[OF run]
  have "length (filter (\<lambda>t. 0 < bt_pnl t) (result_trades r))
          + length (filter (\<lambda>t. \<not> 0 < bt_pnl t) (result_trades r))
        = length (result_trades r)"
    by (rule sum_length_filter_compl)
  moreover have "filter (\<lambda>t. \<not> 0 < bt_pnl t) (result_trades r)
                  = filter (\<lambda>t. bt_pnl t \<le> 0) (result_trades r)"
    by (simp add: not_less)
  ultimately have "winning_trades r + losing_trades r = total_trades r"
    using res by simp
  then show ?thesis using res by simp
qed

theorem backtest_counters_witness:
  "\<exists>r. run_backtest free_backtester buy_once () flat_frame None (1 / 10) = Inr r
       \<and> map bt_pnl (result_trades r) = [0]
       \<and> winning_trades r = 0 \<and> losing_trades r = 1 \<and> total_trades r = 1
       \<and> win_rate r = 0"
proof -
  obtain r where r: "run_backtest free_backtester buy_once () flat_frame None (1 / 10) = Inr r"
    and p: "map bt_pnl (result_trades r) = [0]"
    using flat_trade_result_value unfolding flat_trade_result_def by simp
  from p have f: "filter (\<lambda>t. 0 < bt_pnl t) (result_trades r) = []"
    "length (result_trades r) = 1"
    by (auto simp add: map_eq_Cons_conv)
  from backtest_counters[OF r] f
  have "winning_trades r = 0 \<and> losing_trades r = 1 \<and> total_trades r = 1 \<and> win_rate r = 0"
    by simp
  with r p show ?thesis by - (rule exI[of _ r], simp)
qed

subsection \<open>The sentiment scorer\<close>

lemma starts_with_iff: "starts_with w t \<longleftrightarrow> (\<exists>suf. t = w @ suf)"
  by (induction w t rule: starts_with.induct) auto

lemma contains_iff: "contains w t \<longleftrightarrow> (\<exists>pre suf. t = pre @ w @ suf)"
proof (induction t)
  case Nil
  then show ?case by auto
next
  case (Cons c t)
  show ?case
  proof
    assume "contains w (c # t)"
    then consider "starts_with w (c # t)" | "contains w t" by auto
    then show "\<exists>pre suf. c # t = pre @ w @ suf"
    proof cases
      case 1
      then obtain suf where "c # t = w @ suf" by (auto simp add: starts_with_iff)
      then have "c # t = [] @ w @ suf" by simp
      then show ?thesis by blast
    next
      case 2
      then obtain pre suf where "t = pre @ w @ suf" using Cons.IH by blast
      then have "c # t = (c # pre) @ w @ suf" by simp
      then show ?thesis by blast
    qed
  next
    assume "\<exists>pre suf. c # t = pre @ w @ suf"
    then obtain pre suf where e: "c # t = pre @ w @ suf" by blast
    show "contains w (c # t)"
    proof (cases pre)
      case Nil
      then have "starts_with w (c # t)" using e by (auto simp add: starts_with_iff)
      then show ?thesis by simp
    next
      case (Cons a pre')
      then have "t = pre' @ w @ suf" using e by simp
      then have "contains w t" using Cons.IH by blast
      then show ?thesis by simp
    qed
  qed
qed

lemma count_as_card:
  "distinct ws \<Longrightarrow> length (filter P ws) = card {w \<in> set ws. P w}"
proof -
  assume d: "distinct ws"
  have "card (set (filter P ws)) = length (filter P ws)"
    using d by (intro distinct_card) simp
  then show ?thesis by simp
qed

lemma score_bounds:
  "\<bar>(of_nat p - of_nat n :: rat) / of_nat (p + n + 1)\<bar> < 1"
proof -
  have "\<bar>(of_nat p - of_nat n :: rat)\<bar> \<le> of_nat p + of_nat n" by linarith
  also have "\<dots> < of_nat (p + n + 1)" by simp
  finally have "\<bar>(of_nat p - of_nat n :: rat)\<bar> < of_nat (p + n + 1)" .
  then show ?thesis by (simp add: abs_divide del: of_nat_add of_nat_Suc)
qed


lemma clip_inside: "\<bar>x\<bar> < 1 \<Longrightarrow> clip x (- 1) 1 = x"
  by (auto simp add: clip_def min_def max_def abs_less_iff)

text \<open>
  C6 (as stated: the counts are numbers of occurrences, a word repeated \<open>k\<close> times
  contributing \<open>k\<close>). They are not: for the text \<open>profit profit\<close> the scorer returns
  \<open>1 / 2\<close>, from a positive count of 1, where the count of occurrences 2 gives
  \<open>2 / 3\<close>.
\<close>

theorem sentiment_repeated_word:
  "analyze_sentiment ''profit profit'' = 1 / 2
   \<and> sentiment_by_occurrences ''profit profit'' = 2 / 3
   \<and> analyze_sentiment ''profit profit'' \<noteq> sentiment_by_occurrences ''profit profit''"
  by code_simp

text \<open>
  C6 (amended). For every text the scorer returns \<open>(pos - neg) / (pos + neg + 1)\<close>,
  where \<open>pos\<close> and \<open>neg\<close> are the numbers of words of the positive and of the negative
  list that occur in the lower-cased text as a substring: a word counts once however
  often it occurs. It returns 0 for the empty text and when both counts are 0. The
  result lies strictly between \<open>-1\<close> and 1, so the clamp never changes it.
\<close>

theorem sentiment_counts_distinct_words:
  "analyze_sentiment body =
     (let pos = card {w \<in> set positive_words. \<exists>pre suf. str_lower body = pre @ w @ suf};
          neg = card {w \<in> set negative_words. \<exists>pre suf. str_lower body = pre @ w @ suf}
      in if body = [] \<or> (pos = 0 \<and> neg = 0) then 0
         else (of_nat pos - of_nat neg) / of_nat (pos + neg + 1))
   \<and> - 1 < analyze_sentiment body \<and> analyze_sentiment body < 1"
proof -
  define p where "p = length (filter (\<lambda>word. contains word (str_lower body)) positive_words)"
  define n where "n = length (filter (\<lambda>word. contains word (str_lower body)) negative_words)"
  have dp: "distinct positive_words" by (simp add: positive_words_def)
  have dn: "distinct negative_words" by (simp add: negative_words_def)
  have p: "p = card {w \<in> set positive_words. \<exists>pre suf. str_lower body = pre @ w @ suf}"
    unfolding p_def count_as_card[OF dp] contains_iff ..
  have n: "n = card {w \<in> set negative_words. \<exists>pre suf. str_lower body = pre @ w @ suf}"
    unfolding n_def count_as_card[OF dn] contains_iff ..
  have v: "analyze_sentiment body =
      (if body = [] \<or> (p = 0 \<and> n = 0) then 0
       else (of_nat p - of_nat n) / of_nat (p + n + 1))"
    unfolding analyze_sentiment_def Let_def p_def[symmetric] n_def[symmetric]
    using clip_inside[OF score_bounds[of p n]] by auto
  have b: "\<bar>analyze_sentiment body\<bar> < 1"
    unfolding v using score_bounds[of p n] by auto
  show ?thesis using v b unfolding p n Let_def by (simp add: abs_less_iff)
qed

theorem sentiment_counts_distinct_words_witness:
  "- 1 < analyze_sentiment ''profit profit'' \<and> analyze_sentiment ''profit profit'' < 1"
  using sentiment_counts_distinct_words[of "''profit profit''"] by blast

subsection \<open>Chart patterns\<close>







lemma valid_patterns_empty: "valid_patterns self ps = Inr vs \<Longrightarrow> vs = []"
  by (induction ps arbitrary: vs)
     (auto simp add: self_min_pattern_strength_def Let_def split: if_splits)

lemma valid_patterns_raises:
  "\<exists>p \<in> set ps. pat_breakout p = Some True \<and> pat_is_fake p \<noteq> Some True \<Longrightarrow>
     valid_patterns self ps = Inl (AttributeError ''min_pattern_strength'')"
proof (induction ps)
  case Nil
  then show ?case by simp
next
  case (Cons p ps)
  show ?case
  proof (cases "pat_breakout p = Some True \<and> pat_is_fake p \<noteq> Some True")
    case True
    then show ?thesis
      by (cases "pat_is_fake p")
         (auto simp add: self_min_pattern_strength_def get_or_def Let_def)
  next
    case False
    then have "\<exists>q \<in> set ps. pat_breakout q = Some True \<and> pat_is_fake q \<noteq> Some True"
      using Cons.prems by auto
    then have "valid_patterns self ps = Inl (AttributeError ''min_pattern_strength'')"
      by (rule Cons.IH)
    then show ?thesis
      by (simp add: self_min_pattern_strength_def Let_def)
  qed
qed

text \<open>
  C2 (the code at its failing inputs). Whenever the frame has at least 50 rows and a
  detected pattern has a confirmed breakout and is not flagged fake,
  \<open>ChartPatternStrategy.generate_signal\<close> raises \<open>AttributeError\<close> at the strength
  check; and whenever it returns, it returns a HOLD signal. It never returns BUY or SELL.
\<close>

theorem generate_signal_never_trades:
  "(50 \<le> n \<and> (\<exists>p \<in> set patterns. pat_breakout p = Some True \<and> pat_is_fake p \<noteq> Some True)
      \<longrightarrow> ChartPatternStrategy_generate_signal self n price patterns
            = Inl (AttributeError ''min_pattern_strength''))
   \<and> (\<forall>sg. ChartPatternStrategy_generate_signal self n price patterns = Inr sg
          \<longrightarrow> cs_action sg = ''HOLD'')"
proof -
  have a: "50 \<le> n \<and> (\<exists>p \<in> set patterns. pat_breakout p = Some True \<and> pat_is_fake p \<noteq> Some True)
      \<Longrightarrow> ChartPatternStrategy_generate_signal self n price patterns
            = Inl (AttributeError ''min_pattern_strength'')"
  proof -
    assume h: "50 \<le> n \<and> (\<exists>p \<in> set patterns. pat_breakout p = Some True \<and> pat_is_fake p \<noteq> Some True)"
    then have ne: "patterns \<noteq> []" by auto
    from h have "valid_patterns self patterns = Inl (AttributeError ''min_pattern_strength'')"
      using valid_patterns_raises by blast
    then show ?thesis using h ne by (simp add: ChartPatternStrategy_generate_signal_def)
  qed
  have b: "\<And>sg. ChartPatternStrategy_generate_signal self n price patterns = Inr sg
          \<Longrightarrow> cs_action sg = ''HOLD''"
  proof -
    fix sg
    assume g: "ChartPatternStrategy_generate_signal self n price patterns = Inr sg"
    show "cs_action sg = ''HOLD''"
    proof (cases "valid_patterns self patterns")
      case (Inl e)
      then show ?thesis using g
        by (auto simp add: ChartPatternStrategy_generate_signal_def hold_signal_def
              split: if_splits)
    next
      case (Inr vs)
      then have "vs = []" by (rule valid_patterns_empty)
      then show ?thesis using g Inr
        by (auto simp add: ChartPatternStrategy_generate_signal_def hold_signal_def
              split: if_splits list.splits)
    qed
  qed
  show ?thesis using a b by blast
qed

theorem generate_signal_never_trades_witness:
  "ChartPatternStrategy_generate_signal (ChartPatternStrategy_init None) 60 94 [double_top]
     = Inl (AttributeError ''min_pattern_strength'')"
  using generate_signal_never_trades
          [of 60 "[double_top]" "ChartPatternStrategy_init None" 94]
  by (simp add: double_top_def)

end
